theory Spec2Isabelle
  imports Complex_Main "HOL-Library.Sublist"
begin

section \<open>Python string primitives used by \<open>backend/app.py\<close>\<close>

text \<open>
  Text is modelled as \<^typ>\<open>string\<close>, one \<^typ>\<open>char\<close> per character of the Python
  \<open>str\<close>, a \<^typ>\<open>char\<close> being a code point below 256. On that range \<open>str.lower\<close>
  maps the letters \<open>A\<close> to \<open>Z\<close> and the Latin-1 capitals (codes 192 to 222, the
  multiplication sign 215 apart) to the character 32 places on and leaves every other
  character alone, and \<open>str.isspace\<close>, which decides what \<open>str.split()\<close> and
  \<open>str.strip()\<close> take for whitespace, accepts the codes 9 to 13, 28 to 32, 133 and 160.
\<close>

definition lower_char :: "char \<Rightarrow> char" where
  "lower_char c =
     (let n = (of_char c :: nat)
      in if (65 \<le> n \<and> n \<le> 90) \<or> (192 \<le> n \<and> n \<le> 222 \<and> n \<noteq> 215)
         then char_of (n + 32) else c)"

definition lower :: "string \<Rightarrow> string" where
  "lower s = map lower_char s"

definition is_space :: "char \<Rightarrow> bool" where
  "is_space c =
     (let n = (of_char c :: nat)
      in (9 \<le> n \<and> n \<le> 13) \<or> (28 \<le> n \<and> n \<le> 32) \<or> n = 133 \<or> n = 160)"

text \<open>\<open>sub in s\<close>: \<open>sub\<close> occurs in \<open>s\<close> as a contiguous substring.\<close>

fun str_in :: "string \<Rightarrow> string \<Rightarrow> bool" where
  "str_in sub [] = (sub = [])"
| "str_in sub (c # cs) = (prefix sub (c # cs) \<or> str_in sub cs)"

text \<open>\<open>any(word in s for word in words)\<close>.\<close>

definition any_in :: "string list \<Rightarrow> string \<Rightarrow> bool" where
  "any_in words s = list_ex (\<lambda>word. str_in word s) words"

text \<open>\<open>s.startswith(p)\<close>.\<close>

definition startswith :: "string \<Rightarrow> string \<Rightarrow> bool" where
  "startswith s p = prefix p s"

text \<open>\<open>s.strip()\<close>: leading and trailing whitespace removed.\<close>

definition strip :: "string \<Rightarrow> string" where
  "strip s = rev (dropWhile is_space (rev (dropWhile is_space s)))"

text \<open>\<open>s.split()\<close>: the maximal runs of non-whitespace characters, in order.\<close>

function split_ws :: "string \<Rightarrow> string list" where
  "split_ws [] = []"
| "split_ws (c # cs) =
     (if is_space c then split_ws cs
      else (c # takeWhile (\<lambda>x. \<not> is_space x) cs) # split_ws (dropWhile (\<lambda>x. \<not> is_space x) cs))"
  by pat_completeness auto
termination
  by (relation "measure length") (auto simp: length_dropWhile_le less_Suc_eq_le)

text \<open>
  \<open>s.split(sep)\<close> for a non-empty separator \<open>d # ds\<close>: the pieces between the leftmost,
  non-overlapping occurrences of the separator, empty pieces kept. The result is never
  the empty list.
\<close>

fun split_sep :: "char \<Rightarrow> string \<Rightarrow> string \<Rightarrow> string list" where
  "split_sep d ds [] = [[]]"
| "split_sep d ds (c # cs) =
     (if prefix (d # ds) (c # cs) then [] # split_sep d ds (drop (length ds) cs)
      else (case split_sep d ds cs of
              [] \<Rightarrow> [[c]]
            | w # ws \<Rightarrow> (c # w) # ws))"

text \<open>\<open>sep.join(xs)\<close>.\<close>

fun join :: "string \<Rightarrow> string list \<Rightarrow> string" where
  "join sep [] = []"
| "join sep [x] = x"
| "join sep (x # y # ys) = x @ sep @ join sep (y # ys)"

section \<open>Query classifier\<close>

datatype query_type =
  Translation | Sdg_equality | Help_info | Greeting | Language_culture
  | General_question | General

definition translation_patterns :: "string list" where
  "translation_patterns =
     [''translate'', ''translation'', ''convert to'', ''how to say'', ''what does'',
      ''mean in'', ''say in'']"

definition sdg_words :: "string list" where
  "sdg_words =
     [''sdg'', ''sustainable development'', ''inequality'', ''equality'', ''discrimination'',
      ''rights'', ''barrier'']"

definition help_words :: "string list" where
  "help_words = [''help'', ''what can you do'', ''features'', ''how do you work'', ''capabilities'']"

definition greeting_words :: "string list" where
  "greeting_words =
     [''hello'', ''hi'', ''hey'', ''greetings'', ''good morning'', ''good afternoon'']"

definition language_culture_words :: "string list" where
  "language_culture_words =
     [''language'', ''speak'', ''communication'', ''culture'', ''cultural'', ''idiom'', ''phrase'',
      ''expression'', ''formality'', ''formal'', ''informal'', ''grammar'', ''figurative'',
      ''literal'', ''politeness'', ''ambiguous'', ''ambiguity'', ''sentiment'', ''tone'']"

definition technology_words :: "string list" where
  "technology_words =
     [''technology'', ''ai'', ''artificial intelligence'', ''machine learning'', ''nlp'',
      ''natural language'', ''computer'', ''programming'', ''science'', ''physics'', ''chemistry'',
      ''biology'', ''mathematics'']"

definition question_words :: "string list" where
  "question_words =
     [''what is'', ''how does'', ''why is'', ''explain'', ''tell me about'', ''describe'',
      ''define'', ''difference between'']"

text \<open>\<open>UniversalChatbot.classify_query\<close>, the \<open>if\<close>/\<open>elif\<close> chain in the source's order.\<close>

definition classify_query :: "string \<Rightarrow> query_type" where
  "classify_query message_lower =
     (if any_in translation_patterns message_lower then Translation
      else if any_in sdg_words message_lower then Sdg_equality
      else if any_in help_words message_lower then Help_info
      else if any_in greeting_words message_lower \<and> length (split_ws message_lower) \<le> 5
        then Greeting
      else if any_in language_culture_words message_lower then Language_culture
      else if any_in technology_words message_lower then General_question
      else if any_in question_words message_lower \<or> str_in ''?'' message_lower
        then General_question
      else General)"

text \<open>
  The classifier as the specification words it: an ordered table of seven rules, each a
  condition on the message and the intent it yields; the first rule whose condition holds
  decides, and the last rule always applies.
\<close>

definition precedence_rules :: "((string \<Rightarrow> bool) \<times> query_type) list" where
  "precedence_rules =
     [(any_in translation_patterns, Translation),
      (any_in sdg_words, Sdg_equality),
      (any_in help_words, Help_info),
      (\<lambda>m. any_in greeting_words m \<and> length (split_ws m) \<le> 5, Greeting),
      (any_in language_culture_words, Language_culture),
      (\<lambda>m. any_in technology_words m \<or> (any_in question_words m \<or> str_in ''?'' m),
       General_question),
      (\<lambda>m. True, General)]"

fun first_match :: "((string \<Rightarrow> bool) \<times> query_type) list \<Rightarrow> string \<Rightarrow> query_type option" where
  "first_match [] m = None"
| "first_match ((cond, intent) # rules) m = (if cond m then Some intent else first_match rules m)"

section \<open>Linguistic analyzer\<close>

datatype formality = Formal | Informal | Neutral_formality

datatype sentiment = Positive | Negative | Neutral_sentiment

datatype grammar = Simple | Moderate | Complex

text \<open>The dictionary returned by \<open>detect_linguistic_complexity\<close>, with its five keys.\<close>

record complexity =
  has_idioms :: bool
  formality_level :: formality
  has_cultural_references :: bool
  sentiment :: sentiment
  grammar_complexity :: grammar

text \<open>The exceptions the analyzer's arithmetic could raise.\<close>

datatype py_error = ZeroDivisionError

fun str_of_error :: "py_error \<Rightarrow> string" where
  "str_of_error ZeroDivisionError = ''division by zero''"

text \<open>
  Python's \<open>a / b\<close> on two non-negative integers. The quotient is kept exact; the source
  compares it with the integers 15 and 8 only.
\<close>

definition py_truediv :: "nat \<Rightarrow> nat \<Rightarrow> py_error + rat" where
  "py_truediv a b = (if b = 0 then Inl ZeroDivisionError else Inr (of_nat a / of_nat b))"

definition idiom_patterns :: "string list" where
  "idiom_patterns =
     [''piece of cake'', ''break a leg'', ''it's raining cats and dogs'', ''kill two birds'',
      ''the ball is in your court'', ''break the ice'', ''once in a blue moon'',
      ''bite the bullet'', ''hit the nail on the head'', ''when pigs fly'']"

definition formal_indicators :: "string list" where
  "formal_indicators =
     [''sir'', ''madam'', ''please'', ''kindly'', ''would you'', ''could you'', ''may i'']"

definition informal_indicators :: "string list" where
  "informal_indicators = [''hey'', ''yo'', ''what's up'', ''gonna'', ''wanna'', ''yeah'', ''nah'']"

definition cultural_keywords :: "string list" where
  "cultural_keywords =
     [''thanksgiving'', ''diwali'', ''christmas'', ''ramadan'', ''new year'',
      ''subway'', ''underground'', ''tube'', ''metro'', ''football'', ''soccer'',
      ''dollars'', ''euros'', ''pounds'', ''rupees'', ''yen'']"

definition positive_words :: "string list" where
  "positive_words =
     [''great'', ''excellent'', ''wonderful'', ''amazing'', ''fantastic'', ''love'', ''happy'']"

definition negative_words :: "string list" where
  "negative_words =
     [''terrible'', ''awful'', ''hate'', ''angry'', ''frustrated'', ''disappointed'', ''bad'']"

definition complex_markers :: "string list" where
  "complex_markers =
     [''however'', ''nevertheless'', ''furthermore'', ''consequently'', ''meanwhile'',
      ''which'', ''whom'', ''whose'', ''that'', ''although'', ''whereas'']"

text \<open>\<open>sum(1 for word in words if word in s)\<close>.\<close>

definition count_hits :: "string list \<Rightarrow> string \<Rightarrow> nat" where
  "count_hits words s = sum_list [1. word \<leftarrow> words, str_in word s]"

definition detect_formality_level :: "string \<Rightarrow> formality" where
  "detect_formality_level text_lower =
     (let formal_count = count_hits formal_indicators text_lower;
          informal_count = count_hits informal_indicators text_lower
      in if formal_count > informal_count then Formal
         else if informal_count > formal_count then Informal
         else Neutral_formality)"

definition detect_cultural_references :: "string \<Rightarrow> bool" where
  "detect_cultural_references text_lower = any_in cultural_keywords text_lower"

definition detect_sentiment_indicators :: "string \<Rightarrow> sentiment" where
  "detect_sentiment_indicators text_lower =
     (let positive_count = count_hits positive_words text_lower;
          negative_count = count_hits negative_words text_lower
      in if positive_count > negative_count then Positive
         else if negative_count > positive_count then Negative
         else Neutral_sentiment)"

definition assess_grammar_complexity :: "string \<Rightarrow> py_error + grammar" where
  "assess_grammar_complexity text =
     (let sentences = split_sep (CHR ''.'') [] text in
      case py_truediv (sum_list (map (\<lambda>s. length (split_ws s)) sentences))
                      (max (length sentences) 1) of
        Inl e \<Rightarrow> Inl e
      | Inr avg_sentence_length \<Rightarrow>
          (let has_complex_structures = any_in complex_markers (lower text)
           in if avg_sentence_length > 15 \<or> has_complex_structures then Inr Complex
              else if avg_sentence_length > 8 then Inr Moderate
              else Inr Simple))"

definition detect_linguistic_complexity :: "string \<Rightarrow> py_error + complexity" where
  "detect_linguistic_complexity text =
     (let text_lower = lower text in
      case assess_grammar_complexity text of
        Inl e \<Rightarrow> Inl e
      | Inr g \<Rightarrow>
          Inr \<lparr> has_idioms = any_in idiom_patterns text_lower,
                formality_level = detect_formality_level text_lower,
                has_cultural_references = detect_cultural_references text_lower,
                sentiment = detect_sentiment_indicators text_lower,
                grammar_complexity = g \<rparr>)"

section \<open>Translation adapter\<close>

text \<open>
  The two external collaborators of the adapter: \<open>langdetect.detect\<close>, which returns a
  language code or raises (\<open>None\<close>), and the translation engine
  \<open>translator.translate(text, dest=..., src=...)\<close>, which returns the translated text
  (\<open>Inr\<close>) or raises an exception whose \<open>str\<close> is the given message (\<open>Inl\<close>).
\<close>

record services =
  langdetect :: "string \<Rightarrow> string option"
  translator :: "string \<Rightarrow> string \<Rightarrow> string \<Rightarrow> string + string"

text \<open>Every call that leaves the process is logged, in order.\<close>

datatype ext_call =
  DetectCall string
  | TranslateCall (call_text: string) (call_dest: string) (call_src: string)

definition supported_languages :: "(string \<times> string) list" where
  "supported_languages =
     [(''en'', ''English''), (''es'', ''Spanish''), (''fr'', ''French''), (''de'', ''German''),
      (''hi'', ''Hindi''), (''te'', ''Telugu''), (''mr'', ''Marathi''), (''kn'', ''Kannada''),
      (''gu'', ''Gujarati''), (''ta'', ''Tamil''), (''ml'', ''Malayalam''), (''pa'', ''Punjabi''),
      (''ar'', ''Arabic''), (''zh'', ''Chinese''), (''ja'', ''Japanese''), (''ko'', ''Korean''),
      (''pt'', ''Portuguese''), (''ru'', ''Russian''), (''it'', ''Italian'')]"

definition detect_language :: "services \<Rightarrow> string \<Rightarrow> string \<times> ext_call list" where
  "detect_language sv text =
     (case langdetect sv text of
        Some detected \<Rightarrow>
          (if detected \<in> set (map fst supported_languages) then detected else ''en'',
           [DetectCall text])
      | None \<Rightarrow> (''en'', [DetectCall text]))"

definition idiom_note :: string where
  "idiom_note = ''Note: This text contains idioms that may not translate literally.''"

definition cultural_note :: string where
  "cultural_note = ''Note: This text contains cultural references that may need localization.''"

definition blank_line :: string where
  "blank_line = [CHR 0x0A, CHR 0x0A]"

text \<open>
  \<open>UniversalChatbot.translate_text\<close>. The result is the returned string and the log of
  external calls made. Every exception raised inside the \<open>try\<close> block ends in the handler
  that returns \<open>Translation failed: ...\<close>.
\<close>

definition translate_text ::
  "services \<Rightarrow> string \<Rightarrow> string \<Rightarrow> string option \<Rightarrow> string \<times> ext_call list" where
  "translate_text sv text target_language source_language =
     (let (source, trace) =
            (case source_language of
               None \<Rightarrow> detect_language sv text
             | Some given \<Rightarrow> (given, []))
      in if source = target_language then (text, trace)
         else
           (case detect_linguistic_complexity text of
              Inl e \<Rightarrow> (''Translation failed: '' @ str_of_error e, trace)
            | Inr c \<Rightarrow>
                (if has_idioms c \<or> has_cultural_references c then
                   (case translator sv text target_language source of
                      Inl msg \<Rightarrow>
                        (''Translation failed: '' @ msg,
                         trace @ [TranslateCall text target_language source])
                    | Inr translated \<Rightarrow>
                        (let explanatory_notes =
                               (if has_idioms c then [idiom_note] else [])
                               @ (if has_cultural_references c then [cultural_note] else [])
                         in (if explanatory_notes \<noteq> []
                             then translated @ blank_line @ join '' '' explanatory_notes
                             else translated,
                             trace @ [TranslateCall text target_language source])))
                 else
                   (case translator sv text target_language source of
                      Inl msg \<Rightarrow>
                        (''Translation failed: '' @ msg,
                         trace @ [TranslateCall text target_language source])
                    | Inr translated \<Rightarrow>
                        (translated, trace @ [TranslateCall text target_language source])))))"

text \<open>
  The source language \<open>translate_text\<close> works with: the one given, or else the detected one.
\<close>

definition resolved_source :: "services \<Rightarrow> string \<Rightarrow> string option \<Rightarrow> string" where
  "resolved_source sv text source_language =
     (case source_language of None \<Rightarrow> fst (detect_language sv text) | Some given \<Rightarrow> given)"

definition max_chunk_size :: nat where
  "max_chunk_size = 4000"

text \<open>
  The \<open>for paragraph in paragraphs\<close> loop of \<open>translate_file_content\<close>: the state is
  \<open>current_chunk\<close>, \<open>translated_paragraphs\<close> and the call log.
\<close>

fun chunk_loop ::
  "services \<Rightarrow> string \<Rightarrow> string option \<Rightarrow> string list \<Rightarrow> string \<Rightarrow> string list \<Rightarrow> ext_call list
   \<Rightarrow> string \<times> string list \<times> ext_call list" where
  "chunk_loop sv tgt src [] current_chunk translated_paragraphs trace =
     (current_chunk, translated_paragraphs, trace)"
| "chunk_loop sv tgt src (paragraph # paragraphs) current_chunk translated_paragraphs trace =
     (if length (current_chunk @ paragraph @ blank_line) \<le> max_chunk_size
      then chunk_loop sv tgt src paragraphs (current_chunk @ paragraph @ blank_line)
             translated_paragraphs trace
      else if strip current_chunk \<noteq> []
      then (let (translated_chunk, calls) = translate_text sv (strip current_chunk) tgt src
            in chunk_loop sv tgt src paragraphs (paragraph @ blank_line)
                 (translated_paragraphs @ [translated_chunk]) (trace @ calls))
      else chunk_loop sv tgt src paragraphs (paragraph @ blank_line) translated_paragraphs trace)"

text \<open>
  \<open>UniversalChatbot.translate_file_content\<close>. Nothing in its \<open>try\<close> block raises
  (\<open>translate_text\<close> catches its own exceptions), so the handler returning
  \<open>Translation error: ...\<close> has no branch here.
\<close>

definition translate_file_content ::
  "services \<Rightarrow> string \<Rightarrow> string \<Rightarrow> string option \<Rightarrow> string \<times> ext_call list" where
  "translate_file_content sv text_content target_language source_language =
     (if text_content = [] \<or> strip text_content = []
      then (''File appears to be empty or unreadable.'', [])
      else if length text_content \<le> max_chunk_size
      then translate_text sv text_content target_language source_language
      else
        (let paragraphs = split_sep (CHR 0x0A) [CHR 0x0A] text_content;
             (current_chunk, translated_paragraphs, trace) =
               chunk_loop sv target_language source_language paragraphs [] [] []
         in if strip current_chunk \<noteq> []
            then (let (translated_chunk, calls) =
                        translate_text sv (strip current_chunk) target_language source_language
                  in (join blank_line (translated_paragraphs @ [translated_chunk]), trace @ calls))
            else (join blank_line translated_paragraphs, trace)))"





text \<open>Two example environments: an engine that tags its input, and one that is down.\<close>

definition tagging_services :: services where
  "tagging_services =
     \<lparr> langdetect = (\<lambda>t. Some ''en''),
       translator = (\<lambda>t dest src. Inr (''<'' @ dest @ ''>'' @ t)) \<rparr>"

definition failing_services :: services where
  "failing_services =
     \<lparr> langdetect = (\<lambda>t. None),
       translator = (\<lambda>t dest src. Inl ''connection refused'') \<rparr>"

section \<open>LLM adapter\<close>

text \<open>
  What a \<open>requests\<close> call can come to: a response with its status code and the
  \<open>response\<close> field of its JSON body (the empty string when the field is absent), or one
  of the exceptions.
\<close>

datatype http_outcome =
  HttpResponse nat string
  | ConnectionError
  | Timeout
  | OtherException

text \<open>
  \<open>UniversalChatbot.get_ai_translation\<close>; \<open>post\<close> is the LLM endpoint as a function of the
  prompt sent. \<open>None\<close> is Python's \<open>None\<close>.
\<close>

definition get_ai_translation :: "(string \<Rightarrow> http_outcome) \<Rightarrow> string \<Rightarrow> string option" where
  "get_ai_translation post prompt =
     (case post prompt of
        HttpResponse status_code response \<Rightarrow>
          (if status_code = 200 then
             (let translation = strip response
              in if translation \<noteq> [] \<and> \<not> startswith translation ''I cannot''
                    \<and> \<not> startswith translation ''Sorry''
                 then Some translation else None)
           else None)
      | ConnectionError \<Rightarrow> None
      | Timeout \<Rightarrow> None
      | OtherException \<Rightarrow> None)"

text \<open>\<open>s.split('.', 1)[-1]\<close>: what follows the first period, or all of \<open>s\<close> without one.\<close>

definition after_first_period :: "string \<Rightarrow> string" where
  "after_first_period s =
     (if CHR ''.'' \<in> set s then tl (dropWhile (\<lambda>c. c \<noteq> CHR ''.'') s) else s)"

text \<open>
  What \<open>generate_response_with_ollama\<close> returns: the cleaned text of the model, or the
  result of the call \<open>get_fallback_response(message, language)\<close>, kept as the call itself.
\<close>

datatype reply =
  Generated string
  | FallbackResponse string string

definition chat_prompt :: "query_type \<Rightarrow> string \<Rightarrow> string" where
  "chat_prompt query_type message =
     (if query_type = Translation then
        ''Help with this translation request: '' @ message @ blank_line
        @ ''Provide accurate translation with cultural context. If it's an idiom or cultural expression, explain the meaning and provide equivalent expressions.''
      else if query_type = General_question then
        ''Question: '' @ message @ blank_line
        @ ''Provide a clear, accurate answer. Be concise but comprehensive.''
      else if query_type = Greeting then
        ''User greeting: '' @ message @ blank_line
        @ ''Respond warmly and professionally. Briefly mention your translation and language support capabilities.''
      else if query_type = Language_culture then
        ''Language/culture question: '' @ message @ blank_line
        @ ''Provide expert information about linguistic nuances, cultural contexts, and cross-cultural communication.''
      else
        ''User message: '' @ message @ blank_line
        @ ''Provide a helpful, accurate response. Focus on being informative and relevant.'')"

text \<open>\<open>UniversalChatbot.generate_response_with_ollama\<close>.\<close>

definition generate_response_with_ollama ::
  "(string \<Rightarrow> http_outcome) \<Rightarrow> string \<Rightarrow> string \<Rightarrow> reply" where
  "generate_response_with_ollama post message language =
     (let message_lower = lower message;
          query_type = classify_query message_lower;
          prompt = chat_prompt query_type message
      in case post prompt of
           HttpResponse status_code response \<Rightarrow>
             (if status_code = 200 then
                (let generated_response = strip response
                 in if generated_response \<noteq> [] then
                      (let g1 = (if startswith (lower generated_response) ''as an ai''
                                 then strip (after_first_period generated_response)
                                 else generated_response);
                           g2 = (if startswith (lower g1) ''as a''
                                 then strip (after_first_period g1)
                                 else g1)
                       in if length g2 > 10 then Generated g2
                          else FallbackResponse message language)
                    else FallbackResponse message language)
              else FallbackResponse message language)
         | ConnectionError \<Rightarrow> FallbackResponse message language
         | Timeout \<Rightarrow> FallbackResponse message language
         | OtherException \<Rightarrow> FallbackResponse message language)"

section \<open>Endpoints\<close>

subsection \<open>\<open>/api/health\<close>\<close>

record health_body =
  health_status :: string
  ollama_connected :: bool
  health_languages :: "string list"

text \<open>
  \<open>health\<close>, given what the probe of the LLM backend's version URL comes to. The pair is
  the HTTP status and the JSON body; \<open>jsonify\<close> alone answers with status 200.
\<close>

definition health :: "http_outcome \<Rightarrow> nat \<times> health_body" where
  "health probe =
     (let ollama_status =
            (case probe of
               HttpResponse status_code body \<Rightarrow> status_code = 200
             | ConnectionError \<Rightarrow> False
             | Timeout \<Rightarrow> False
             | OtherException \<Rightarrow> False)
      in (200, \<lparr> health_status = ''healthy'',
                 ollama_connected = ollama_status,
                 health_languages = map fst supported_languages \<rparr>))"

subsection \<open>\<open>/api/speech-to-text\<close>\<close>

text \<open>The file system: the files that exist, with their contents.\<close>

type_synonym filesystem = "string \<rightharpoonup> string"

text \<open>
  The dictionary returned by \<open>whisper_model.transcribe\<close>: \<open>text\<close> is read with
  \<open>result['text']\<close> and raises when absent, the other two are read with \<open>get\<close>.
\<close>

record whisper_result =
  result_text :: "string option"
  result_language :: "string option"
  result_avg_logprob :: "rat option"

datatype transcribe_outcome =
  Transcribed whisper_result
  | TranscribeRaises

text \<open>
  The environment of the handler: whether the \<open>whisper\<close> import succeeded, the loaded model
  (\<open>None\<close> when loading failed), \<open>base64.b64decode\<close> (\<open>None\<close>: it raises), the name
  \<open>tempfile\<close> picks, and whether writing the audio bytes succeeds. The model is called
  with the path and the language hint, and may change the file system as it likes.
\<close>

record speech_env =
  whisper_available :: bool
  whisper_model ::
    "(string \<Rightarrow> string option \<Rightarrow> filesystem \<Rightarrow> transcribe_outcome \<times> filesystem) option"
  b64decode :: "string \<Rightarrow> string option"
  temp_name :: "filesystem \<Rightarrow> string"
  write_succeeds :: "string \<Rightarrow> bool"

text \<open>The JSON body of the request; \<open>None\<close> when \<open>request.get_json()\<close> gives \<open>None\<close>.\<close>

record speech_json =
  json_audio :: "string option"
  json_language :: "string option"

datatype speech_body =
  SpeechError string
  | Transcription string string rat

datatype file_event =
  Created string
  | Wrote string
  | Unlinked string

text \<open>
  \<open>speech_to_text\<close>: the HTTP status and body, the file system afterwards, and the file
  operations the handler itself performed. Every exception ends in the outer handler, which
  answers 500; the \<open>finally\<close> block runs after the transcription whatever came of it.
\<close>

definition speech_to_text ::
  "speech_env \<Rightarrow> speech_json option \<Rightarrow> filesystem
   \<Rightarrow> (nat \<times> speech_body) \<times> filesystem \<times> file_event list" where
  "speech_to_text env request_json fs =
     (if \<not> whisper_available env then
        ((400, SpeechError
           ''Speech recognition not available on server. Using browser recognition.''), fs, [])
      else
        (case request_json of
           None \<Rightarrow> ((500, SpeechError ''Speech recognition failed''), fs, [])
         | Some data \<Rightarrow>
             (let audio_data = (case json_audio data of None \<Rightarrow> [] | Some a \<Rightarrow> a);
                  language = (case json_language data of None \<Rightarrow> ''en'' | Some l \<Rightarrow> l)
              in if audio_data = [] then ((400, SpeechError ''No audio data provided''), fs, [])
                 else
                   (case b64decode env audio_data of
                      None \<Rightarrow> ((500, SpeechError ''Speech recognition failed''), fs, [])
                    | Some audio_bytes \<Rightarrow>
                        (let temp_file_path = temp_name env fs;
                             fs_created = fs(temp_file_path \<mapsto> [])
                         in if \<not> write_succeeds env audio_bytes then
                              ((500, SpeechError ''Speech recognition failed''),
                               fs_created, [Created temp_file_path])
                            else
                              (let fs_written = fs(temp_file_path \<mapsto> audio_bytes);
                                   (outcome, fs_transcribed) =
                                     (case whisper_model env of
                                        None \<Rightarrow> (TranscribeRaises, fs_written)
                                      | Some model \<Rightarrow>
                                          model temp_file_path
                                            (if language \<noteq> ''auto'' then Some language else None)
                                            fs_written);
                                   (fs_final, cleanup) =
                                     (if fs_transcribed temp_file_path \<noteq> None
                                      then (fs_transcribed(temp_file_path := None),
                                            [Unlinked temp_file_path])
                                      else (fs_transcribed, []));
                                   events = [Created temp_file_path, Wrote temp_file_path] @ cleanup
                               in case outcome of
                                    TranscribeRaises \<Rightarrow>
                                      ((500, SpeechError ''Speech recognition failed''),
                                       fs_final, events)
                                  | Transcribed result \<Rightarrow>
                                      (case result_text result of
                                         None \<Rightarrow>
                                           ((500, SpeechError ''Speech recognition failed''),
                                            fs_final, events)
                                       | Some t \<Rightarrow>
                                           ((200, Transcription (strip t)
                                                    (case result_language result of
                                                       None \<Rightarrow> language | Some l \<Rightarrow> l)
                                                    (case result_avg_logprob result of
                                                       None \<Rightarrow> 0 | Some v \<Rightarrow> v)),
                                            fs_final, events))))))))"

subsection \<open>\<open>/api/translate-file\<close>\<close>

text \<open>
  \<open>os.path.splitext(filename)[1]\<close> on a POSIX path: the extension starts at the last
  period of the last path component, unless only periods come before it there.
\<close>

definition splitext_ext :: "string \<Rightarrow> string" where
  "splitext_ext p =
     (let base = rev (takeWhile (\<lambda>c. c \<noteq> CHR ''/'') (rev p));
          after_dot = rev (takeWhile (\<lambda>c. c \<noteq> CHR ''.'') (rev base));
          before_dot = take (length base - length after_dot - 1) base
      in if CHR ''.'' \<in> set base \<and> list_ex (\<lambda>c. c \<noteq> CHR ''.'') before_dot
         then CHR ''.'' # after_dot else [])"

text \<open>
  The decoders \<open>extract_text_from_file\<close> relies on: strict UTF-8 decoding (\<open>None\<close>: it
  raises \<open>UnicodeDecodeError\<close>), the encoding \<open>chardet\<close> reports (possibly \<open>None\<close>),
  decoding with a named encoding (\<open>None\<close>: it raises), and the two lossy decoders that
  never raise.
\<close>

record codecs =
  decode_utf8 :: "string \<Rightarrow> string option"
  chardet_encoding :: "string \<Rightarrow> string option"
  decode_with :: "string \<Rightarrow> string \<Rightarrow> string option"
  decode_latin1_ignore :: "string \<Rightarrow> string"
  decode_utf8_ignore :: "string \<Rightarrow> string"

definition text_extensions :: "string list" where
  "text_extensions =
     [''.txt'', ''.md'', ''.py'', ''.js'', ''.html'', ''.css'', ''.json'', ''.xml'', ''.csv'']"

text \<open>
  \<open>UniversalChatbot.extract_text_from_file\<close>. Decoding with the encoding \<open>None\<close> raises
  and so falls to the Latin-1 decoder, like any other failure of the second attempt.
\<close>

definition extract_text_from_file :: "codecs \<Rightarrow> string \<Rightarrow> string \<Rightarrow> string" where
  "extract_text_from_file cd file_content filename =
     (let file_extension = lower (splitext_ext filename)
      in if file_extension \<in> set text_extensions then
           (case decode_utf8 cd file_content of
              Some t \<Rightarrow> t
            | None \<Rightarrow>
                (case chardet_encoding cd file_content of
                   None \<Rightarrow> decode_latin1_ignore cd file_content
                 | Some encoding \<Rightarrow>
                     (case decode_with cd encoding file_content of
                        Some t \<Rightarrow> t
                      | None \<Rightarrow> decode_latin1_ignore cd file_content)))
         else if file_extension = ''.pdf'' then
           ''PDF file detected. Please convert to text format for translation.''
         else if file_extension \<in> set [''.doc'', ''.docx''] then
           ''Word document detected. Please save as text file for translation.''
         else decode_utf8_ignore cd file_content)"

text \<open>The multipart request: the uploaded file, if any, and the two form fields.\<close>

record upload =
  upload_filename :: string
  upload_content :: string

record file_request =
  request_file :: "upload option"
  form_target_language :: "string option"
  form_source_language :: "string option"

record file_success =
  original_filename :: string
  file_size :: nat
  file_type :: string
  detected_language :: string
  source_language :: string
  target_language :: string
  original_content :: string
  translated_content :: string
  char_count :: nat
  translated_char_count :: nat

datatype file_body =
  FileError string
  | FileSuccess file_success

text \<open>
  \<open>translate_file\<close>: the HTTP status and body, and the log of external calls. Nothing in
  the \<open>try\<close> block raises in this model, so the handler answering 500 has no branch.
\<close>

definition translate_file ::
  "services \<Rightarrow> codecs \<Rightarrow> file_request \<Rightarrow> (nat \<times> file_body) \<times> ext_call list" where
  "translate_file sv cd request =
     (case request_file request of
        None \<Rightarrow> ((400, FileError ''No file provided''), [])
      | Some file \<Rightarrow>
          (let target = (case form_target_language request of None \<Rightarrow> ''en'' | Some t \<Rightarrow> t);
               source = form_source_language request
           in if upload_filename file = [] then ((400, FileError ''No file selected''), [])
              else
                (let file_content = upload_content file;
                     filename = upload_filename file;
                     text_content = extract_text_from_file cd file_content filename
                 in if startswith text_content ''Error'' \<or> startswith text_content ''Unsupported''
                       \<or> str_in ''detected'' text_content
                    then ((400, FileError text_content), [])
                    else
                      (let (detected_lang, trace1) = detect_language sv (take 1000 text_content);
                           actual_source_lang =
                             (case source of
                                None \<Rightarrow> detected_lang
                              | Some s \<Rightarrow> if s \<noteq> [] \<and> s \<noteq> ''auto'' then s else detected_lang);
                           (translated, trace2) =
                             translate_file_content sv text_content target (Some actual_source_lang)
                       in ((200, FileSuccess
                              \<lparr> original_filename = filename,
                                file_size = length file_content,
                                file_type = lower (splitext_ext filename),
                                detected_language = detected_lang,
                                source_language = actual_source_lang,
                                target_language = target,
                                original_content =
                                  (if length text_content > 500
                                   then take 500 text_content @ ''...'' else text_content),
                                translated_content = translated,
                                char_count = length text_content,
                                translated_char_count = length translated \<rparr>),
                           trace1 @ trace2)))))"

text \<open>Example decoders: bytes below 128 decode to themselves, anything else is rejected or dropped.\<close>

definition ascii_codecs :: codecs where
  "ascii_codecs =
     \<lparr> decode_utf8 = (\<lambda>b. if list_all (\<lambda>c. (of_char c :: nat) < 128) b then Some b else None),
       chardet_encoding = (\<lambda>b. None),
       decode_with = (\<lambda>enc b. None),
       decode_latin1_ignore = (\<lambda>b. b),
       decode_utf8_ignore = (\<lambda>b. filter (\<lambda>c. (of_char c :: nat) < 128) b) \<rparr>"

text \<open>Two example speech environments: a model that raises, and one that transcribes.\<close>

definition raising_speech_env :: speech_env where
  "raising_speech_env =
     \<lparr> whisper_available = True,
       whisper_model = Some (\<lambda>path hint fs. (TranscribeRaises, fs)),
       b64decode = (\<lambda>s. Some s),
       temp_name = (\<lambda>fs. ''/tmp/tmpaudio.wav''),
       write_succeeds = (\<lambda>b. True) \<rparr>"

definition transcribing_speech_env :: speech_env where
  "transcribing_speech_env =
     \<lparr> whisper_available = True,
       whisper_model =
         Some (\<lambda>path hint fs.
                 (Transcribed \<lparr> result_text = Some '' hello world '',
                                 result_language = Some ''en'',
                                 result_avg_logprob = None \<rparr>, fs)),
       b64decode = (\<lambda>s. Some s),
       temp_name = (\<lambda>fs. ''/tmp/tmpaudio.wav''),
       write_succeeds = (\<lambda>b. True) \<rparr>"

section \<open>Properties\<close>

subsection \<open>Strings\<close>

lemma str_in_iff: "str_in sub s \<longleftrightarrow> (\<exists>p q. s = p @ sub @ q)"
proof (induction s)
  case Nil
  then show ?case by auto
next
  case (Cons c cs)
  show ?case
  proof
    assume "str_in sub (c # cs)"
    then consider "prefix sub (c # cs)" | "str_in sub cs" by auto
    then show "\<exists>p q. c # cs = p @ sub @ q"
    proof cases
      case 1
      then obtain q where "c # cs = sub @ q" by (auto simp: prefix_def)
      then have "c # cs = [] @ sub @ q" by simp
      then show ?thesis by blast
    next
      case 2
      with Cons.IH obtain p q where "cs = p @ sub @ q" by blast
      then have "c # cs = (c # p) @ sub @ q" by simp
      then show ?thesis by blast
    qed
  next
    assume "\<exists>p q. c # cs = p @ sub @ q"
    then obtain p q where pq: "c # cs = p @ sub @ q" by blast
    show "str_in sub (c # cs)"
    proof (cases p)
      case Nil
      with pq have "prefix sub (c # cs)" by (simp add: prefix_def)
      then show ?thesis by simp
    next
      case (Cons a p')
      with pq have "cs = p' @ sub @ q" by simp
      with Cons.IH have "str_in sub cs" by blast
      then show ?thesis by simp
    qed
  qed
qed

lemma str_in_map: "str_in sub s \<Longrightarrow> str_in (map f sub) (map f s)"
  unfolding str_in_iff by (metis map_append)

lemma any_in_member: "word \<in> set words \<Longrightarrow> str_in word s \<Longrightarrow> any_in words s"
  by (auto simp: any_in_def list_ex_iff)

lemma lower_idiom_patterns: "idiom \<in> set idiom_patterns \<Longrightarrow> lower idiom = idiom"
  by (auto simp: idiom_patterns_def lower_def lower_char_def)

lemma any_in_idiom_lower:
  "idiom \<in> set idiom_patterns \<Longrightarrow> str_in idiom text \<Longrightarrow> any_in idiom_patterns (lower text)"
  using any_in_member lower_idiom_patterns str_in_map unfolding lower_def by metis

lemma count_hits_filter: "count_hits words s = length (filter (\<lambda>w. \<exists>p q. s = p @ w @ q) words)"
proof -
  have "sum_list (map (\<lambda>w. 1::nat) xs) = length xs" for xs :: "string list"
    by (induction xs) auto
  moreover have "[1::nat. word \<leftarrow> words, str_in word s]
                 = map (\<lambda>w. 1) (filter (\<lambda>w. str_in w s) words)"
    by (induction words) auto
  ultimately have "count_hits words s = length (filter (\<lambda>w. str_in w s) words)"
    by (simp add: count_hits_def)
  then show ?thesis by (simp only: str_in_iff)
qed

lemma occurs_count_eval:
  "length (filter (\<lambda>w. \<exists>p q. s = p @ w @ q) words) = length (filter (\<lambda>w. str_in w s) words)"
  by (simp only: str_in_iff)

subsection \<open>The analyzer never raises\<close>

lemma assess_grammar_complexity_total: "\<exists>g. assess_grammar_complexity text = Inr g"
  by (simp add: assess_grammar_complexity_def py_truediv_def Let_def)

lemma detect_linguistic_complexity_total:
  "\<exists>g. assess_grammar_complexity text = Inr g \<and> detect_linguistic_complexity text =
     Inr \<lparr> has_idioms = any_in idiom_patterns (lower text),
           formality_level = detect_formality_level (lower text),
           has_cultural_references = detect_cultural_references (lower text),
           sentiment = detect_sentiment_indicators (lower text),
           grammar_complexity = g \<rparr>"
  using assess_grammar_complexity_total [of "text"]
  by (auto simp: detect_linguistic_complexity_def Let_def)

lemma translate_text_engine_raises:
  assumes "resolved_source sv text src \<noteq> tgt"
    and "translator sv text tgt (resolved_source sv text src) = Inl msg"
  shows "fst (translate_text sv text tgt src) = ''Translation failed: '' @ msg"
proof -
  from detect_linguistic_complexity_total [of "text"]
  obtain c where c: "detect_linguistic_complexity text = Inr c" by auto
  show ?thesis
  proof (cases src)
    case None
    with assms c show ?thesis
      by (simp add: translate_text_def resolved_source_def split_def Let_def)
  next
    case (Some given)
    with assms c show ?thesis
      by (simp add: translate_text_def resolved_source_def)
  qed
qed

subsection \<open>Query classifier\<close>

text \<open>
  C1. The classifier applies its seven rules in fixed first-match order (translation,
  sdg_equality, help_info, greeting, language_culture, question, general): for every
  message its result is the intent of the first rule of the table whose condition holds.
  In particular \<open>translate hello to spanish\<close> is a translation, \<open>hi\<close> is a greeting and
  \<open>what is the difference between x and y?\<close> is a general question.
\<close>

theorem classify_query_first_match:
  "first_match precedence_rules m = Some (classify_query m)
   \<and> classify_query ''translate hello to spanish'' = Translation
   \<and> classify_query ''hi'' = Greeting
   \<and> classify_query ''what is the difference between x and y?'' = General_question"
proof -
  have "first_match precedence_rules m = Some (classify_query m)"
    by (simp add: classify_query_def precedence_rules_def)
  moreover have "classify_query ''translate hello to spanish'' = Translation" by code_simp
  moreover have "classify_query ''hi'' = Greeting" by code_simp
  moreover have "classify_query ''what is the difference between x and y?'' = General_question"
    by code_simp
  ultimately show ?thesis by simp
qed

theorem classify_query_first_match_witness:
  "first_match precedence_rules ''hey, what is equality?'' = Some Sdg_equality"
proof -
  have "classify_query ''hey, what is equality?'' = Sdg_equality" by code_simp
  with classify_query_first_match [of "''hey, what is equality?''"] show ?thesis by simp
qed

subsection \<open>Translation adapter\<close>

text \<open>
  C2. For every text and every language \<open>L\<close>, translating from \<open>L\<close> to \<open>L\<close> with the
  source language given returns the text unchanged, and the log of external calls is empty:
  neither the translation engine nor the detector is called.
\<close>

theorem translate_text_same_language:
  "translate_text sv text L (Some L) = (text, [])"
  by (simp add: translate_text_def)

text \<open>
  C3, as stated, fails: a text of at most 4000 characters that is empty or all whitespace
  is answered by the guard at the head of \<open>translate_file_content\<close>, not by
  \<open>translate_text\<close>.
\<close>

theorem translate_file_content_short_counterexample:
  "length '' '' \<le> 4000 \<and>
   translate_file_content tagging_services '' '' ''es'' (Some ''en'')
     \<noteq> translate_text tagging_services '' '' ''es'' (Some ''en'')"
  by code_simp

text \<open>
  C3, amended. A text that is empty or all whitespace is answered with the placeholder
  \<open>File appears to be empty or unreadable.\<close> and no external call. For every text of at
  most 4000 characters that is not empty and not all whitespace, \<open>translate_file_content\<close>
  returns exactly what \<open>translate_text\<close> returns on the same text, target language and
  source language, with the same external calls.
\<close>

theorem translate_file_content_short:
  "(strip text = [] \<longrightarrow>
      translate_file_content sv text tgt src = (''File appears to be empty or unreadable.'', []))
   \<and> (length text \<le> 4000 \<and> strip text \<noteq> [] \<longrightarrow>
        translate_file_content sv text tgt src = translate_text sv text tgt src)"
  by (auto simp: translate_file_content_def max_chunk_size_def strip_def)

theorem translate_file_content_short_witness:
  "strip [CHR 0xA0, CHR '' ''] = [] \<and>
   translate_file_content tagging_services [CHR 0xA0, CHR '' ''] ''es'' (Some ''en'')
     = (''File appears to be empty or unreadable.'', []) \<and>
   length ''good morning'' \<le> 4000 \<and> strip ''good morning'' \<noteq> [] \<and>
   translate_file_content tagging_services ''good morning'' ''es'' (Some ''en'')
     = translate_text tagging_services ''good morning'' ''es'' (Some ''en'')"
proof -
  have h0: "strip [CHR 0xA0, CHR '' ''] = []" by code_simp
  have h1: "length ''good morning'' \<le> 4000" by simp
  have h2: "strip ''good morning'' \<noteq> []" by code_simp
  from translate_file_content_short [of "[CHR 0xA0, CHR '' '']" tagging_services "''es''" "Some ''en''"]
    translate_file_content_short [of "''good morning''" tagging_services "''es''" "Some ''en''"]
    h0 h1 h2
  show ?thesis by blast
qed

text \<open>
  C5, as stated, fails: when the translation engine raises, \<open>translate_text\<close> returns
  the failure string of its exception handler, which carries no idiom note.
\<close>

theorem idiom_note_appended_counterexample:
  "str_in ''break a leg'' ''break a leg'' \<and> ''en'' \<noteq> ''es'' \<and>
   \<not> str_in idiom_note (fst (translate_text failing_services ''break a leg'' ''es'' (Some ''en'')))"
  by code_simp

text \<open>
  C5, amended. For every text that contains a listed idiom phrase, the analyzer returns a
  profile with \<open>has_idioms\<close> true. Whenever the source language in effect differs from the
  target and the translation engine returns a translation, the output of \<open>translate_text\<close>
  is that translation, a blank line, and one trailing line holding the idiom note, followed
  after a single space by the cultural note when cultural references were flagged. When the
  engine raises instead, the output is \<open>Translation failed: \<close> followed by the message of
  the exception.
\<close>

theorem idiom_note_appended:
  assumes "idiom \<in> set idiom_patterns" and "str_in idiom text"
  shows "\<exists>c. detect_linguistic_complexity text = Inr c \<and> has_idioms c \<and>
           (\<forall>sv tgt src translated.
              resolved_source sv text src \<noteq> tgt \<and>
              translator sv text tgt (resolved_source sv text src) = Inr translated \<longrightarrow>
              fst (translate_text sv text tgt src) =
                translated @ blank_line
                @ join '' '' (idiom_note # (if has_cultural_references c then [cultural_note] else [])))
         \<and> (\<forall>sv tgt src msg.
              resolved_source sv text src \<noteq> tgt \<and>
              translator sv text tgt (resolved_source sv text src) = Inl msg \<longrightarrow>
              fst (translate_text sv text tgt src) = ''Translation failed: '' @ msg)"
proof -
  from detect_linguistic_complexity_total [of "text"]
  obtain c where c: "detect_linguistic_complexity text = Inr c"
    and hi: "has_idioms c = any_in idiom_patterns (lower text)"
    by auto
  from assms have idi: "has_idioms c" using hi any_in_idiom_lower by simp
  have ok: "fst (translate_text sv text tgt src) =
          translated @ blank_line
          @ join '' '' (idiom_note # (if has_cultural_references c then [cultural_note] else []))"
    if ne: "resolved_source sv text src \<noteq> tgt"
      and tr: "translator sv text tgt (resolved_source sv text src) = Inr translated"
    for sv tgt src translated
  proof (cases src)
    case None
    with ne tr c idi show ?thesis
      by (simp add: translate_text_def resolved_source_def split_def Let_def)
  next
    case (Some given)
    with ne tr c idi show ?thesis
      by (simp add: translate_text_def resolved_source_def)
  qed
  have bad: "fst (translate_text sv text tgt src) = ''Translation failed: '' @ msg"
    if "resolved_source sv text src \<noteq> tgt"
      and "translator sv text tgt (resolved_source sv text src) = Inl msg"
    for sv tgt src msg
    using that by (rule translate_text_engine_raises)
  from c idi ok bad show ?thesis by blast
qed

theorem idiom_note_appended_witness:
  "''break the ice'' \<in> set idiom_patterns \<and> str_in ''break the ice'' ''Let's break the ice'' \<and>
   fst (translate_text tagging_services ''Let's break the ice'' ''fr'' (Some ''en''))
     = ''<fr>Let's break the ice'' @ blank_line @ idiom_note \<and>
   fst (translate_text failing_services ''Let's break the ice'' ''fr'' (Some ''en''))
     = ''Translation failed: connection refused''"
proof -
  have h1: "''break the ice'' \<in> set idiom_patterns" by (simp add: idiom_patterns_def)
  have h2: "str_in ''break the ice'' ''Let's break the ice''" by code_simp
  have d: "detect_linguistic_complexity ''Let's break the ice'' =
             Inr \<lparr> has_idioms = True, formality_level = Neutral_formality,
                   has_cultural_references = False, sentiment = Neutral_sentiment,
                   grammar_complexity = Simple \<rparr>"
    by code_simp
  have r: "resolved_source tagging_services ''Let's break the ice'' (Some ''en'') \<noteq> ''fr''"
    by (simp add: resolved_source_def)
  have t: "translator tagging_services ''Let's break the ice'' ''fr''
             (resolved_source tagging_services ''Let's break the ice'' (Some ''en''))
           = Inr ''<fr>Let's break the ice''"
    by (simp add: tagging_services_def)
  have r': "resolved_source failing_services ''Let's break the ice'' (Some ''en'') \<noteq> ''fr''"
    by (simp add: resolved_source_def)
  have t': "translator failing_services ''Let's break the ice'' ''fr''
             (resolved_source failing_services ''Let's break the ice'' (Some ''en''))
           = Inl ''connection refused''"
    by (simp add: failing_services_def)
  from idiom_note_appended [OF h1 h2] d r t r' t' h1 h2 show ?thesis by auto
qed

subsection \<open>Linguistic analyzer\<close>

text \<open>
  C7. The analyzer returns a profile for every string and never raises. On the empty string
  the profile is neutral formality, no idioms, no cultural references, neutral sentiment and
  simple grammar. For every input, the formal count is the number of the seven formal
  markers that occur in the lowercased text, and the informal, positive and negative counts
  likewise over their keyword lists; formality is formal exactly when the formal count is
  strictly greater, informal exactly when the informal count is strictly greater, and
  neutral exactly on a tie; sentiment likewise with the positive and negative counts.
\<close>

theorem analyzer_total_and_ties_neutral:
  "detect_linguistic_complexity '''' =
     Inr \<lparr> has_idioms = False, formality_level = Neutral_formality,
           has_cultural_references = False, sentiment = Neutral_sentiment,
           grammar_complexity = Simple \<rparr>
   \<and> (\<exists>c. detect_linguistic_complexity text = Inr c
        \<and> (let occurs = (\<lambda>w. \<exists>p q. lower text = p @ w @ q);
                formal_count = length (filter occurs
                  [''sir'', ''madam'', ''please'', ''kindly'', ''would you'', ''could you'',
                   ''may i'']);
                informal_count = length (filter occurs
                  [''hey'', ''yo'', ''what's up'', ''gonna'', ''wanna'', ''yeah'', ''nah'']);
                positive_count = length (filter occurs
                  [''great'', ''excellent'', ''wonderful'', ''amazing'', ''fantastic'', ''love'',
                   ''happy'']);
                negative_count = length (filter occurs
                  [''terrible'', ''awful'', ''hate'', ''angry'', ''frustrated'', ''disappointed'',
                   ''bad''])
            in (formality_level c = Formal \<longleftrightarrow> formal_count > informal_count)
             \<and> (formality_level c = Informal \<longleftrightarrow> informal_count > formal_count)
             \<and> (formality_level c = Neutral_formality \<longleftrightarrow> formal_count = informal_count)
             \<and> (sentiment c = Positive \<longleftrightarrow> positive_count > negative_count)
             \<and> (sentiment c = Negative \<longleftrightarrow> negative_count > positive_count)
             \<and> (sentiment c = Neutral_sentiment \<longleftrightarrow> positive_count = negative_count)))"
proof -
  have e: "detect_linguistic_complexity '''' =
     Inr \<lparr> has_idioms = False, formality_level = Neutral_formality,
           has_cultural_references = False, sentiment = Neutral_sentiment,
           grammar_complexity = Simple \<rparr>"
    by code_simp
  from detect_linguistic_complexity_total [of "text"]
  obtain c where c: "detect_linguistic_complexity text = Inr c"
    and f: "formality_level c = detect_formality_level (lower text)"
    and s: "sentiment c = detect_sentiment_indicators (lower text)"
    by auto
  let ?occurs = "\<lambda>w. \<exists>p q. lower text = p @ w @ q"
  let ?fc = "length (filter ?occurs
               [''sir'', ''madam'', ''please'', ''kindly'', ''would you'', ''could you'', ''may i''])"
  let ?ic = "length (filter ?occurs
               [''hey'', ''yo'', ''what's up'', ''gonna'', ''wanna'', ''yeah'', ''nah''])"
  let ?pc = "length (filter ?occurs
               [''great'', ''excellent'', ''wonderful'', ''amazing'', ''fantastic'', ''love'',
                ''happy''])"
  let ?nc = "length (filter ?occurs
               [''terrible'', ''awful'', ''hate'', ''angry'', ''frustrated'', ''disappointed'',
                ''bad''])"
  have fc: "count_hits formal_indicators (lower text) = ?fc"
    unfolding count_hits_filter formal_indicators_def ..
  have ic: "count_hits informal_indicators (lower text) = ?ic"
    unfolding count_hits_filter informal_indicators_def ..
  have pc: "count_hits positive_words (lower text) = ?pc"
    unfolding count_hits_filter positive_words_def ..
  have nc: "count_hits negative_words (lower text) = ?nc"
    unfolding count_hits_filter negative_words_def ..
  have "formality_level c = Formal \<longleftrightarrow> ?fc > ?ic"
    and "formality_level c = Informal \<longleftrightarrow> ?ic > ?fc"
    and "formality_level c = Neutral_formality \<longleftrightarrow> ?fc = ?ic"
    unfolding f detect_formality_level_def Let_def fc ic by auto
  moreover have "sentiment c = Positive \<longleftrightarrow> ?pc > ?nc"
    and "sentiment c = Negative \<longleftrightarrow> ?nc > ?pc"
    and "sentiment c = Neutral_sentiment \<longleftrightarrow> ?pc = ?nc"
    unfolding s detect_sentiment_indicators_def Let_def pc nc by auto
  ultimately show ?thesis using e c unfolding Let_def by blast
qed

theorem analyzer_total_and_ties_neutral_witness:
  "(\<exists>c. detect_linguistic_complexity ''Please sir, this is great'' = Inr c
      \<and> formality_level c = Formal \<and> sentiment c = Positive)
   \<and> (\<exists>c. detect_linguistic_complexity ''yeah, I hate Mondays'' = Inr c
      \<and> formality_level c = Informal \<and> sentiment c = Negative)
   \<and> (\<exists>c. detect_linguistic_complexity ''Hey sir, I love it but I hate it'' = Inr c
      \<and> formality_level c = Neutral_formality \<and> sentiment c = Neutral_sentiment)"
proof -
  let ?formal = "[''sir'', ''madam'', ''please'', ''kindly'', ''would you'', ''could you'',
                  ''may i'']"
  let ?informal = "[''hey'', ''yo'', ''what's up'', ''gonna'', ''wanna'', ''yeah'', ''nah'']"
  let ?positive = "[''great'', ''excellent'', ''wonderful'', ''amazing'', ''fantastic'', ''love'',
                    ''happy'']"
  let ?negative = "[''terrible'', ''awful'', ''hate'', ''angry'', ''frustrated'', ''disappointed'',
                    ''bad'']"
  let ?n = "\<lambda>s words. length (filter (\<lambda>w. str_in w (lower s)) words)"
  have f1: "?n ''Please sir, this is great'' ?formal = 2" by code_simp
  have i1: "?n ''Please sir, this is great'' ?informal = 0" by code_simp
  have p1: "?n ''Please sir, this is great'' ?positive = 1" by code_simp
  have n1: "?n ''Please sir, this is great'' ?negative = 0" by code_simp
  have f2: "?n ''yeah, I hate Mondays'' ?formal = 0" by code_simp
  have i2: "?n ''yeah, I hate Mondays'' ?informal = 1" by code_simp
  have p2: "?n ''yeah, I hate Mondays'' ?positive = 0" by code_simp
  have n2: "?n ''yeah, I hate Mondays'' ?negative = 1" by code_simp
  have f3: "?n ''Hey sir, I love it but I hate it'' ?formal = 1" by code_simp
  have i3: "?n ''Hey sir, I love it but I hate it'' ?informal = 1" by code_simp
  have p3: "?n ''Hey sir, I love it but I hate it'' ?positive = 1" by code_simp
  have n3: "?n ''Hey sir, I love it but I hate it'' ?negative = 1" by code_simp
  have a: "\<exists>c. detect_linguistic_complexity ''Please sir, this is great'' = Inr c
      \<and> formality_level c = Formal \<and> sentiment c = Positive"
    using analyzer_total_and_ties_neutral [of "''Please sir, this is great''"]
    unfolding Let_def occurs_count_eval f1 i1 p1 n1 by simp blast
  have b: "\<exists>c. detect_linguistic_complexity ''yeah, I hate Mondays'' = Inr c
      \<and> formality_level c = Informal \<and> sentiment c = Negative"
    using analyzer_total_and_ties_neutral [of "''yeah, I hate Mondays''"]
    unfolding Let_def occurs_count_eval f2 i2 p2 n2 by simp blast
  have c: "\<exists>c. detect_linguistic_complexity ''Hey sir, I love it but I hate it'' = Inr c
      \<and> formality_level c = Neutral_formality \<and> sentiment c = Neutral_sentiment"
    using analyzer_total_and_ties_neutral [of "''Hey sir, I love it but I hate it''"]
    unfolding Let_def occurs_count_eval f3 i3 p3 n3 by simp blast
  from a b c show ?thesis by blast
qed

subsection \<open>Chunking of long texts\<close>



























subsection \<open>LLM adapter\<close>

lemma get_ai_translation_rejects_refusal:
  assumes "post prompt = HttpResponse 200 response"
    and "startswith (strip response) ''I cannot'' \<or> startswith (strip response) ''Sorry''"
  shows "get_ai_translation post prompt = None"
  using assms by (auto simp: get_ai_translation_def Let_def)

lemma get_ai_translation_no_response:
  assumes "\<forall>response. post prompt \<noteq> HttpResponse 200 response"
  shows "get_ai_translation post prompt = None"
  using assms by (auto simp: get_ai_translation_def Let_def split: http_outcome.splits)

text \<open>
  C6. The translation-assist path rejects a response that begins with a refusal phrase, but
  the chat path has no such test: on the response \<open>I cannot help with that\<close> with status
  200, \<open>generate_response_with_ollama\<close> returns the refusal text itself, for every message
  and language, where \<open>get_ai_translation\<close> returns nothing.
\<close>

theorem refusal_returned_by_chat_path:
  "generate_response_with_ollama (\<lambda>prompt. HttpResponse 200 ''I cannot help with that'')
       message language
     = Generated ''I cannot help with that''
   \<and> get_ai_translation (\<lambda>prompt. HttpResponse 200 ''I cannot help with that'') prompt' = None"
proof -
  have a: "strip ''I cannot help with that'' = ''I cannot help with that''" by code_simp
  have b: "\<not> startswith (lower ''I cannot help with that'') ''as an ai''" by code_simp
  have c: "\<not> startswith (lower ''I cannot help with that'') ''as a''" by code_simp
  have d: "startswith ''I cannot help with that'' ''I cannot''" by code_simp
  have "generate_response_with_ollama (\<lambda>prompt. HttpResponse 200 ''I cannot help with that'')
          message language = Generated ''I cannot help with that''"
    unfolding generate_response_with_ollama_def Let_def http_outcome.case a using b c by simp
  moreover have "get_ai_translation (\<lambda>prompt. HttpResponse 200 ''I cannot help with that'')
                   prompt' = None"
    by (rule get_ai_translation_rejects_refusal [where response = "''I cannot help with that''"])
       (simp_all add: a d)
  ultimately show ?thesis by simp
qed

subsection \<open>Speech-to-text endpoint\<close>

lemma speech_events_unavailable:
  "\<not> whisper_available env \<Longrightarrow> snd (snd (speech_to_text env request_json fs)) = []"
  by (simp add: speech_to_text_def)

lemma speech_events_no_json:
  "snd (snd (speech_to_text env None fs)) = []"
  by (simp add: speech_to_text_def)

lemma speech_events_no_audio:
  "json_audio data = None \<or> json_audio data = Some [] \<Longrightarrow>
   snd (snd (speech_to_text env (Some data) fs)) = []"
  by (auto simp: speech_to_text_def Let_def)

lemma speech_events_undecodable:
  "json_audio data = Some a \<Longrightarrow> b64decode env a = None \<Longrightarrow>
   snd (snd (speech_to_text env (Some data) fs)) = []"
  by (simp add: speech_to_text_def Let_def)

lemma speech_events_write_fails:
  "json_audio data = Some a \<Longrightarrow> b64decode env a = Some bytes \<Longrightarrow> \<not> write_succeeds env bytes \<Longrightarrow>
   Wrote path \<notin> set (snd (snd (speech_to_text env (Some data) fs)))"
  by (simp add: speech_to_text_def Let_def)

lemma speech_to_text_written:
  assumes "whisper_available env" and "request_json = Some data"
    and "json_audio data = Some a" and "a \<noteq> []"
    and "b64decode env a = Some bytes" and "write_succeeds env bytes"
  shows "fst (snd (speech_to_text env request_json fs)) (temp_name env fs) = None"
    and "Wrote path \<in> set (snd (snd (speech_to_text env request_json fs)))
         \<Longrightarrow> path = temp_name env fs"
proof -
  let ?p = "temp_name env fs"
  let ?language = "case json_language data of None \<Rightarrow> ''en'' | Some l \<Rightarrow> l"
  let ?t = "case whisper_model env of
              None \<Rightarrow> (TranscribeRaises, fs(?p \<mapsto> bytes))
            | Some model \<Rightarrow>
                model ?p (if ?language \<noteq> ''auto'' then Some ?language else None)
                  (fs(?p \<mapsto> bytes))"
  let ?final = "if snd ?t ?p \<noteq> None then (snd ?t)(?p := None) else snd ?t"
  let ?events = "[Created ?p, Wrote ?p] @ (if snd ?t ?p \<noteq> None then [Unlinked ?p] else [])"
  have r: "snd (speech_to_text env request_json fs) = (?final, ?events)"
    using assms
    by (simp add: speech_to_text_def Let_def split_def
             split: transcribe_outcome.split option.split)
  show "fst (snd (speech_to_text env request_json fs)) (temp_name env fs) = None"
    unfolding r by simp
  show "path = temp_name env fs"
    if "Wrote path \<in> set (snd (snd (speech_to_text env request_json fs)))"
    using that unfolding r by (simp split: if_splits)
qed

text \<open>
  C8. For every speech-to-text request in which the handler wrote the transient audio file,
  that file (the one \<open>tempfile\<close> named) does not exist when the request completes, whatever
  the transcription did: returned, raised, or touched the file system.
\<close>

theorem temp_file_removed:
  assumes "Wrote path \<in> set (snd (snd (speech_to_text env request_json fs)))"
  shows "path = temp_name env fs \<and> fst (snd (speech_to_text env request_json fs)) path = None"
proof -
  have av: "whisper_available env"
  proof (rule ccontr)
    assume "\<not> whisper_available env"
    then have "snd (snd (speech_to_text env request_json fs)) = []"
      by (rule speech_events_unavailable)
    with assms show False by simp
  qed
  obtain data where data: "request_json = Some data"
  proof (cases request_json)
    case None
    then have "snd (snd (speech_to_text env request_json fs)) = []"
      by (simp add: speech_events_no_json)
    with assms show ?thesis by simp
  next
    case (Some d)
    then show ?thesis by (rule that)
  qed
  obtain a where a: "json_audio data = Some a" "a \<noteq> []"
  proof (cases "json_audio data = None \<or> json_audio data = Some []")
    case True
    then have "snd (snd (speech_to_text env (Some data) fs)) = []"
      by (rule speech_events_no_audio)
    with assms data show ?thesis by simp
  next
    case False
    then obtain a where "json_audio data = Some a" "a \<noteq> []" by auto
    then show ?thesis by (rule that)
  qed
  obtain bytes where bytes: "b64decode env a = Some bytes"
  proof (cases "b64decode env a")
    case None
    with a have "snd (snd (speech_to_text env (Some data) fs)) = []"
      by (simp add: speech_events_undecodable)
    with assms data show ?thesis by simp
  next
    case (Some b)
    then show ?thesis by (rule that)
  qed
  have w: "write_succeeds env bytes"
  proof (rule ccontr)
    assume "\<not> write_succeeds env bytes"
    with a bytes have "Wrote path \<notin> set (snd (snd (speech_to_text env (Some data) fs)))"
      by (simp add: speech_events_write_fails)
    with assms data show False by simp
  qed
  from speech_to_text_written [OF av data a bytes w] assms show ?thesis by blast
qed

theorem temp_file_removed_witness:
  "Wrote ''/tmp/tmpaudio.wav''
     \<in> set (snd (snd (speech_to_text raising_speech_env
                        (Some \<lparr> json_audio = Some ''UklGRg=='', json_language = None \<rparr>)
                        Map.empty)))
   \<and> fst (snd (speech_to_text raising_speech_env
                 (Some \<lparr> json_audio = Some ''UklGRg=='', json_language = None \<rparr>)
                 Map.empty)) ''/tmp/tmpaudio.wav'' = None
   \<and> fst (fst (speech_to_text raising_speech_env
                 (Some \<lparr> json_audio = Some ''UklGRg=='', json_language = None \<rparr>)
                 Map.empty)) = 500
   \<and> fst (snd (speech_to_text transcribing_speech_env
                 (Some \<lparr> json_audio = Some ''UklGRg=='', json_language = None \<rparr>)
                 Map.empty)) ''/tmp/tmpaudio.wav'' = None
   \<and> fst (speech_to_text transcribing_speech_env
            (Some \<lparr> json_audio = Some ''UklGRg=='', json_language = None \<rparr>)
            Map.empty) = (200, Transcription ''hello world'' ''en'' 0)"
proof -
  let ?rq = "Some \<lparr> json_audio = Some ''UklGRg=='', json_language = None \<rparr>"
  let ?r = "speech_to_text raising_speech_env ?rq Map.empty"
  let ?t = "speech_to_text transcribing_speech_env ?rq Map.empty"
  have w: "Wrote ''/tmp/tmpaudio.wav'' \<in> set (snd (snd ?r))"
    by (simp add: speech_to_text_def raising_speech_env_def Let_def)
  have s: "fst (fst ?r) = 500"
    by (simp add: speech_to_text_def raising_speech_env_def Let_def)
  have w': "Wrote ''/tmp/tmpaudio.wav'' \<in> set (snd (snd ?t))"
    by (simp add: speech_to_text_def transcribing_speech_env_def Let_def)
  have st: "strip '' hello world '' = ''hello world''" by code_simp
  have s': "fst ?t = (200, Transcription ''hello world'' ''en'' 0)"
    by (simp add: speech_to_text_def transcribing_speech_env_def Let_def st)
  from temp_file_removed [OF w, THEN conjunct2] temp_file_removed [OF w', THEN conjunct2] w s s'
  show ?thesis by blast
qed

subsection \<open>Health endpoint\<close>

text \<open>
  C9. The health endpoint answers 200 whatever the probe of the LLM backend came to, with
  status \<open>healthy\<close> and the list of supported language codes; \<open>ollama_connected\<close> is true
  exactly when the probe got a response with status 200, so it is false on a connection
  failure, a timeout, any other exception and any other status.
\<close>

theorem health_always_200:
  "fst (health probe) = 200
   \<and> health_status (snd (health probe)) = ''healthy''
   \<and> health_languages (snd (health probe)) =
       [''en'', ''es'', ''fr'', ''de'', ''hi'', ''te'', ''mr'', ''kn'', ''gu'', ''ta'', ''ml'',
        ''pa'', ''ar'', ''zh'', ''ja'', ''ko'', ''pt'', ''ru'', ''it'']
   \<and> (ollama_connected (snd (health probe)) \<longleftrightarrow> (\<exists>body. probe = HttpResponse 200 body))
   \<and> ((probe = ConnectionError \<or> probe = Timeout \<or> probe = OtherException
        \<or> (\<exists>code body. probe = HttpResponse code body \<and> code \<noteq> 200))
       \<longrightarrow> \<not> ollama_connected (snd (health probe)))"
  by (cases probe) (auto simp: health_def supported_languages_def)

theorem health_always_200_witness:
  "fst (health Timeout) = 200 \<and> \<not> ollama_connected (snd (health Timeout))
   \<and> fst (health (HttpResponse 503 [])) = 200
   \<and> \<not> ollama_connected (snd (health (HttpResponse 503 [])))"
  using health_always_200 [of Timeout] health_always_200 [of "HttpResponse 503 []"] by simp

subsection \<open>File translation endpoint\<close>

text \<open>
  C10. For every uploaded file with a name whose extracted text contains \<open>detected\<close>
  anywhere, or begins with \<open>Error\<close> or \<open>Unsupported\<close>, the endpoint answers 400 with that
  text as the error message and makes no external call, so nothing is translated; this
  holds also when the text is the decoded body of an ordinary text file.
\<close>

theorem translate_file_rejects_detected:
  assumes "request_file request = Some file" and "upload_filename file \<noteq> []"
    and "str_in ''detected'' (extract_text_from_file cd (upload_content file) (upload_filename file))
         \<or> startswith (extract_text_from_file cd (upload_content file) (upload_filename file)) ''Error''
         \<or> startswith (extract_text_from_file cd (upload_content file) (upload_filename file))
              ''Unsupported''"
  shows "translate_file sv cd request =
           ((400, FileError (extract_text_from_file cd (upload_content file) (upload_filename file))),
            [])"
  using assms by (auto simp: translate_file_def Let_def)

theorem translate_file_rejects_detected_witness:
  "extract_text_from_file ascii_codecs ''No anomalies were detected today.'' ''log.txt''
     = ''No anomalies were detected today.''
   \<and> translate_file tagging_services ascii_codecs
       \<lparr> request_file = Some \<lparr> upload_filename = ''log.txt'',
                                upload_content = ''No anomalies were detected today.'' \<rparr>,
         form_target_language = Some ''es'', form_source_language = None \<rparr>
     = ((400, FileError ''No anomalies were detected today.''), [])"
proof -
  let ?f = "\<lparr> upload_filename = ''log.txt'',
               upload_content = ''No anomalies were detected today.'' \<rparr>"
  let ?rq = "\<lparr> request_file = Some ?f, form_target_language = Some ''es'',
                form_source_language = None \<rparr>"
  have e: "extract_text_from_file ascii_codecs ''No anomalies were detected today.'' ''log.txt''
             = ''No anomalies were detected today.''"
    by code_simp
  have h1: "request_file ?rq = Some ?f" by simp
  have h2: "upload_filename ?f \<noteq> []" by simp
  have d: "str_in ''detected'' ''No anomalies were detected today.''" by code_simp
  have h3: "str_in ''detected''
              (extract_text_from_file ascii_codecs (upload_content ?f) (upload_filename ?f))
            \<or> startswith
                (extract_text_from_file ascii_codecs (upload_content ?f) (upload_filename ?f))
                ''Error''
            \<or> startswith
                (extract_text_from_file ascii_codecs (upload_content ?f) (upload_filename ?f))
                ''Unsupported''"
    using d e by simp
  from translate_file_rejects_detected [OF h1 h2 h3, of tagging_services] e
  show ?thesis by simp
qed

end
